theory Spec2Isabelle
  imports Main
begin

section \<open>haconfig: binding a configuration record from YAML and the environment\<close>

text \<open>
  A shallow embedding of \<^verbatim>\<open>src/haconfig/config.go\<close>. Go strings are byte lists
  (\<open>string\<close>). The functions of Go's standard library that the package calls are
  embedded next to their callers; \<^verbatim>\<open>strings.ToLower\<close>, \<^verbatim>\<open>strings.ToUpper\<close> and
  \<^verbatim>\<open>strings.TrimSpace\<close> are embedded on ASCII (a byte above 127 is left as it is),
  which is where Go identifiers made of ASCII letters and the two regular
  expressions of \<^verbatim>\<open>toSnakeCase\<close> live.
\<close>

subsection \<open>Characters and strings\<close>

definition is_upper :: "char \<Rightarrow> bool" where
  "is_upper c = (65 \<le> (of_char c :: nat) \<and> (of_char c :: nat) \<le> 90)"

definition is_lower :: "char \<Rightarrow> bool" where
  "is_lower c = (97 \<le> (of_char c :: nat) \<and> (of_char c :: nat) \<le> 122)"

definition is_digit :: "char \<Rightarrow> bool" where
  "is_digit c = (48 \<le> (of_char c :: nat) \<and> (of_char c :: nat) \<le> 57)"

definition to_lower :: "char \<Rightarrow> char" where
  "to_lower c = (if is_upper c then char_of ((of_char c :: nat) + 32) else c)"

definition to_upper :: "char \<Rightarrow> char" where
  "to_upper c = (if is_lower c then char_of ((of_char c :: nat) - 32) else c)"

definition ToLower :: "string \<Rightarrow> string" where
  "ToLower s = map to_lower s"

definition ToUpper :: "string \<Rightarrow> string" where
  "ToUpper s = map to_upper s"

subsection \<open>The name derivation\<close>

text \<open>
  \<^verbatim>\<open>regexp.MustCompile(`([a-z0-9])([A-Z])`).ReplaceAllString(str, `${1}_${2}`)\<close>:
  the matches are found from left to right and do not overlap. A match is two
  bytes; the scan goes on behind it.
\<close>

fun re1_replace :: "string \<Rightarrow> string" where
  "re1_replace (a # b # rest) =
     (if (is_lower a \<or> is_digit a) \<and> is_upper b
      then a # CHR ''_'' # b # re1_replace rest
      else a # re1_replace (b # rest))"
| "re1_replace s = s"

text \<open>
  \<^verbatim>\<open>regexp.MustCompile(`([A-Z]+)([A-Z][a-z])`).ReplaceAllString(result, `${1}_${2}`)\<close>.
  A match can only start at an upper-case byte. Let the run of upper-case bytes
  that starts there be \<open>run\<close>. The second group is an upper-case byte followed
  by a lower-case one, so its first byte is the last byte of \<open>run\<close> and the byte
  after \<open>run\<close> is lower-case; the first group is the rest of \<open>run\<close> and must not
  be empty. When there is no match at the start of a run there is none at any
  later byte of it (the run ends at the same place), so the scan goes on behind
  the run; after a match it goes on behind the lower-case byte.
\<close>

function re2_replace :: "string \<Rightarrow> string" where
  "re2_replace [] = []"
| "re2_replace (c # cs) =
     (if is_upper c then
        (let run = takeWhile is_upper (c # cs);
             rest = dropWhile is_upper (c # cs)
         in case rest of
              [] \<Rightarrow> run
            | l # rest' \<Rightarrow>
                if 2 \<le> length run \<and> is_lower l
                then butlast run @ [CHR ''_'', last run, l] @ re2_replace rest'
                else run @ re2_replace rest)
      else c # re2_replace cs)"
  by pat_completeness auto
termination
proof (relation "measure length")
  show "wf (measure length)" by simp
next
  fix c :: char and cs run rest l rest'
  assume "is_upper c" and "run = takeWhile is_upper (c # cs)"
    and r: "rest = dropWhile is_upper (c # cs)" and "rest = l # rest'"
  then have "l # rest' = dropWhile is_upper cs" by simp
  then have "length (l # rest') \<le> length cs"
    by (metis length_dropWhile_le)
  then show "(rest', c # cs) \<in> measure length" by simp
next
  fix c :: char and cs run rest l rest'
  assume "is_upper c" and "run = takeWhile is_upper (c # cs)"
    and r: "rest = dropWhile is_upper (c # cs)" and "rest = l # rest'"
  then have "rest = dropWhile is_upper cs" by simp
  then have "length rest \<le> length cs"
    by (metis length_dropWhile_le)
  then show "(rest, c # cs) \<in> measure length" by simp
next
  fix c :: char and cs
  show "(cs, c # cs) \<in> measure length" by simp
qed

record Config =
  envPrefix :: string
  yamlFile :: string
  envMapping :: "string \<rightharpoonup> string"

text \<open>\<^verbatim>\<open>New()\<close> without options.\<close>

definition New :: Config where
  "New = \<lparr>envPrefix = [], yamlFile = [], envMapping = Map.empty\<rparr>"

definition toSnakeCase :: "string \<Rightarrow> string" where
  "toSnakeCase str =
     (if str = [] then [] else ToLower (re2_replace (re1_replace str)))"

definition getEnvName :: "Config \<Rightarrow> string \<Rightarrow> string \<Rightarrow> string" where
  "getEnvName c fieldName prefix =
     (let envName = toSnakeCase fieldName;
          envName = (if prefix \<noteq> [] then prefix @ ''_'' @ envName else envName);
          envName = (if envPrefix c \<noteq> [] then envPrefix c @ ''_'' @ envName else envName)
      in ToUpper envName)"

definition buildPrefix :: "string \<Rightarrow> string \<Rightarrow> string" where
  "buildPrefix currentPrefix fieldName =
     (let snakeName = toSnakeCase fieldName
      in if currentPrefix = [] then snakeName else currentPrefix @ ''_'' @ snakeName)"

subsection \<open>Errors\<close>

text \<open>
  Every error of the package is made by \<^verbatim>\<open>fmt.Errorf\<close>: a message, and with
  \<^verbatim>\<open>%w\<close> the error it wraps. \<open>Error_msg\<close> is Go's \<^verbatim>\<open>err.Error()\<close>.
\<close>

datatype error = Error string | Wrap string error

fun Error_msg :: "error \<Rightarrow> string" where
  "Error_msg (Error m) = m"
| "Error_msg (Wrap m e) = m @ Error_msg e"

text \<open>\<^verbatim>\<open>errors.Unwrap\<close> chains: the errors an error wraps, itself included.\<close>

fun wraps :: "error \<Rightarrow> error \<Rightarrow> bool" where
  "wraps (Error m) e = (Error m = e)"
| "wraps (Wrap m e') e = (Wrap m e' = e \<or> wraps e' e)"

subsection \<open>Types and values of the target record\<close>

text \<open>
  What \<^verbatim>\<open>reflect\<close> shows of a Go type and of a value of it. \<open>TInt w\<close> and \<open>TUint w\<close>
  are the integer kinds of \<open>w\<close> bits (\<^verbatim>\<open>int\<close> and \<^verbatim>\<open>uint\<close> are 64 bits wide),
  \<open>TDuration\<close> is \<^verbatim>\<open>time.Duration\<close> (kind \<^verbatim>\<open>Int64\<close>), \<open>TTime\<close> is \<^verbatim>\<open>time.Time\<close>
  (kind \<^verbatim>\<open>Struct\<close>; a \<open>TStruct\<close> is any other struct type), \<open>TNilable k\<close> is a
  map, channel, function or interface type and \<open>TOther k cmp\<close> an array,
  complex, \<^verbatim>\<open>uintptr\<close> or unsafe pointer type, \<open>k\<close> the name of the kind and
  \<open>cmp\<close> whether Go's \<^verbatim>\<open>==\<close> is defined on the type. Of a value of these
  types the embedding keeps whether it is nil (\<open>VNilable\<close>) or equal to the zero
  value (\<open>VOther\<close>). A field declaration has the field's name, whether it is
  exported, whether its tag \<^verbatim>\<open>required\<close> is \<^verbatim>\<open>"true"\<close>, and its type. A struct
  type that reaches itself through a pointer is not a \<open>ty\<close>: on such a type the
  recursion of \<^verbatim>\<open>hasAnyEnvVar\<close> over types has no end.
\<close>

datatype ty =
    TString | TBool | TInt nat | TUint nat | TFloat nat | TDuration | TTime
  | TSlice ty | TPtr ty | TStruct "fdecl list" | TNilable string | TOther string bool
and fdecl = FDecl string bool bool ty

text \<open>
  A floating-point number: \<open>Finite m e\<close> is \<open>m * 2 ^ e\<close>. A \<^verbatim>\<open>time.Time\<close> is an
  instant counted from the zero \<^verbatim>\<open>time.Time{}\<close>, a duration a number of nanoseconds.
\<close>

datatype float = Finite int int | Inf bool | NaN

datatype val =
    VString string | VBool bool | VInt nat int | VUint nat int | VFloat nat float
  | VDuration int | VTime int
  | VNilSlice ty | VSlice ty "val list"
  | VNilPtr ty | VPtr val
  | VStruct "struct_field list"
  | VNilable string bool | VOther string bool bool
and struct_field = StructField string bool bool val

fun typeof :: "val \<Rightarrow> ty" and decl_of :: "struct_field \<Rightarrow> fdecl" where
  "typeof (VString s) = TString"
| "typeof (VBool b) = TBool"
| "typeof (VInt w i) = TInt w"
| "typeof (VUint w n) = TUint w"
| "typeof (VFloat w f) = TFloat w"
| "typeof (VDuration d) = TDuration"
| "typeof (VTime t) = TTime"
| "typeof (VNilSlice t) = TSlice t"
| "typeof (VSlice t vs) = TSlice t"
| "typeof (VNilPtr t) = TPtr t"
| "typeof (VPtr v) = TPtr (typeof v)"
| "typeof (VStruct fs) = TStruct (map decl_of fs)"
| "typeof (VNilable k isnil) = TNilable k"
| "typeof (VOther k cmp z) = TOther k cmp"
| "decl_of (StructField name exported required v) = FDecl name exported required (typeof v)"

text \<open>The zero value of a type: \<^verbatim>\<open>reflect.Zero\<close>, and what \<^verbatim>\<open>reflect.New\<close> points to.\<close>

fun zero :: "ty \<Rightarrow> val" and zero_field :: "fdecl \<Rightarrow> struct_field" where
  "zero TString = VString []"
| "zero TBool = VBool False"
| "zero (TInt w) = VInt w 0"
| "zero (TUint w) = VUint w 0"
| "zero (TFloat w) = VFloat w (Finite 0 0)"
| "zero TDuration = VDuration 0"
| "zero TTime = VTime 0"
| "zero (TSlice t) = VNilSlice t"
| "zero (TPtr t) = VNilPtr t"
| "zero (TStruct ds) = VStruct (map zero_field ds)"
| "zero (TNilable k) = VNilable k True"
| "zero (TOther k cmp) = VOther k cmp True"
| "zero_field (FDecl name exported required t) = StructField name exported required (zero t)"

subsection \<open>The process around the package\<close>

text \<open>
  What a call reads from outside: the environment, the file system, and the
  library functions whose results are taken as given (\<^verbatim>\<open>yaml.Unmarshal\<close>,
  \<^verbatim>\<open>strconv.ParseFloat\<close> at 64 bits, the conversion to \<^verbatim>\<open>float32\<close>,
  \<^verbatim>\<open>time.ParseDuration\<close>, and \<^verbatim>\<open>time.Parse\<close> with its layout first).
\<close>

datatype oserr = ErrNotExist | ErrOther string

record sys =
  environ :: "string \<rightharpoonup> string"
  ReadFile :: "string \<Rightarrow> oserr + string"
  Unmarshal :: "string \<Rightarrow> val \<Rightarrow> error + val"
  ParseFloat :: "string \<Rightarrow> float option"
  float32 :: "float \<Rightarrow> float"
  ParseDuration :: "string \<Rightarrow> int option"
  time_Parse :: "string \<Rightarrow> string \<Rightarrow> int option"

text \<open>\<^verbatim>\<open>os.Getenv\<close>: the value of the variable, empty when it is not set.\<close>

definition Getenv :: "sys \<Rightarrow> string \<Rightarrow> string" where
  "Getenv w name = (case environ w name of None \<Rightarrow> [] | Some v \<Rightarrow> v)"

subsection \<open>Library functions on strings\<close>

text \<open>\<^verbatim>\<open>strconv.ParseBool\<close>.\<close>

definition ParseBool :: "string \<Rightarrow> bool option" where
  "ParseBool str =
     (if str \<in> set [''1'', ''t'', ''T'', ''TRUE'', ''true'', ''True''] then Some True
      else if str \<in> set [''0'', ''f'', ''F'', ''FALSE'', ''false'', ''False''] then Some False
      else None)"

text \<open>
  The value of a string of decimal digits, read from the left; \<open>None\<close> at any
  other byte (in base 10 the underscore is one).
\<close>

fun digits_val :: "int \<Rightarrow> string \<Rightarrow> int option" where
  "digits_val acc [] = Some acc"
| "digits_val acc (c # cs) =
     (if is_digit c then digits_val (acc * 10 + ((of_char c :: int) - 48)) cs else None)"

text \<open>
  \<^verbatim>\<open>strconv.ParseUint(s, 10, 64)\<close> and \<^verbatim>\<open>strconv.ParseInt(s, 10, 64)\<close>; \<open>None\<close> is
  any error, a syntax error or a value out of the range of 64 bits.
\<close>

definition ParseUint :: "string \<Rightarrow> int option" where
  "ParseUint s =
     (if s = [] then None
      else case digits_val 0 s of
             None \<Rightarrow> None
           | Some un \<Rightarrow> if un < 2 ^ 64 then Some un else None)"

definition ParseInt :: "string \<Rightarrow> int option" where
  "ParseInt s =
     (if s = [] then None
      else let neg = (hd s = CHR ''-'');
               s' = (if hd s = CHR ''+'' \<or> hd s = CHR ''-'' then tl s else s)
           in if s' = [] then None
              else case digits_val 0 s' of
                     None \<Rightarrow> None
                   | Some un \<Rightarrow>
                       if \<not> neg \<and> 2 ^ 63 \<le> un then None
                       else if neg \<and> 2 ^ 63 < un then None
                       else Some (if neg then - un else un))"

text \<open>
  \<^verbatim>\<open>reflect.Value.SetInt\<close> and \<^verbatim>\<open>SetUint\<close> convert the 64-bit number to the type of
  the field: the low \<open>w\<close> bits, read as two's complement for a signed field.
\<close>

definition SetInt :: "nat \<Rightarrow> int \<Rightarrow> int" where
  "SetInt w x = (x + 2 ^ (w - 1)) mod 2 ^ w - 2 ^ (w - 1)"

definition SetUint :: "nat \<Rightarrow> int \<Rightarrow> int" where
  "SetUint w x = x mod 2 ^ w"

text \<open>\<^verbatim>\<open>strings.Split(value, ",")\<close>: one part more than there are commas.\<close>

fun Split :: "string \<Rightarrow> string list" where
  "Split [] = [[]]"
| "Split (c # cs) =
     (if c = CHR '','' then [] # Split cs
      else case Split cs of p # ps \<Rightarrow> (c # p) # ps | [] \<Rightarrow> [[c]])"

definition is_space :: "char \<Rightarrow> bool" where
  "is_space c = ((of_char c :: nat) \<in> set [9, 10, 11, 12, 13, 32])"

definition TrimSpace :: "string \<Rightarrow> string" where
  "TrimSpace s = rev (dropWhile is_space (rev (dropWhile is_space s)))"

text \<open>The verb \<^verbatim>\<open>%d\<close> of \<^verbatim>\<open>fmt\<close> on an index.\<close>

fun itoa :: "nat \<Rightarrow> string" where
  "itoa n = (if n < 10 then [char_of (48 + n)] else itoa (n div 10) @ [char_of (48 + n mod 10)])"

declare itoa.simps [simp del]

subsection \<open>Coercion of a string to the type of a field\<close>

text \<open>
  \<^verbatim>\<open>time.Parse\<close> with \<^verbatim>\<open>time.RFC3339\<close>, then with the three other layouts in
  their order; the first that parses gives the value.
\<close>

definition time_layouts :: "string list" where
  "time_layouts = [''2006-01-02T15:04:05Z07:00'', ''2006-01-02 15:04:05'', ''2006-01-02'', ''15:04:05'']"

fun parse_time :: "sys \<Rightarrow> string list \<Rightarrow> string \<Rightarrow> int option" where
  "parse_time w [] value = None"
| "parse_time w (layout # layouts) value =
     (case time_Parse w layout value of
        Some t \<Rightarrow> Some t
      | None \<Rightarrow> parse_time w layouts value)"

text \<open>
  \<open>setFieldValue\<close> returns the new value of the field. \<open>setSliceElems\<close> is the
  loop of \<open>setSliceValue\<close> over the parts, from index \<open>i\<close> on; every element
  of the slice made by \<^verbatim>\<open>reflect.MakeSlice\<close> is the zero value of the element
  type when its turn comes.
\<close>

function setFieldValue :: "sys \<Rightarrow> val \<Rightarrow> string \<Rightarrow> error + val"
  and setSliceElems :: "sys \<Rightarrow> ty \<Rightarrow> nat \<Rightarrow> string list \<Rightarrow> error + val list" where
  "setFieldValue w (VString old) value = Inr (VString value)"
| "setFieldValue w (VBool old) value =
     (case ParseBool value of
        None \<Rightarrow> Inl (Error (''invalid bool value: '' @ value))
      | Some boolVal \<Rightarrow> Inr (VBool boolVal))"
| "setFieldValue w (VDuration old) value =
     (case ParseDuration w value of
        None \<Rightarrow> Inl (Error (''invalid duration value: '' @ value))
      | Some duration \<Rightarrow> Inr (VDuration duration))"
| "setFieldValue w (VInt bits old) value =
     (case ParseInt value of
        None \<Rightarrow> Inl (Error (''invalid int value: '' @ value))
      | Some intVal \<Rightarrow> Inr (VInt bits (SetInt bits intVal)))"
| "setFieldValue w (VUint bits old) value =
     (case ParseUint value of
        None \<Rightarrow> Inl (Error (''invalid uint value: '' @ value))
      | Some uintVal \<Rightarrow> Inr (VUint bits (SetUint bits uintVal)))"
| "setFieldValue w (VFloat bits old) value =
     (case ParseFloat w value of
        None \<Rightarrow> Inl (Error (''invalid float value: '' @ value))
      | Some floatVal \<Rightarrow> Inr (VFloat bits (if bits = 32 then float32 w floatVal else floatVal)))"
| "setFieldValue w (VNilSlice t) value =
     (case setSliceElems w t 0 (Split value) of
        Inl err \<Rightarrow> Inl err
      | Inr slice \<Rightarrow> Inr (VSlice t slice))"
| "setFieldValue w (VSlice t old) value =
     (case setSliceElems w t 0 (Split value) of
        Inl err \<Rightarrow> Inl err
      | Inr slice \<Rightarrow> Inr (VSlice t slice))"
| "setFieldValue w (VNilPtr t) value =
     (case setFieldValue w (zero t) value of
        Inl err \<Rightarrow> Inl err
      | Inr v \<Rightarrow> Inr (VPtr v))"
| "setFieldValue w (VPtr old) value =
     (case setFieldValue w old value of
        Inl err \<Rightarrow> Inl err
      | Inr v \<Rightarrow> Inr (VPtr v))"
| "setFieldValue w (VTime old) value =
     (case parse_time w time_layouts value of
        None \<Rightarrow> Inl (Error (''invalid time value: '' @ value))
      | Some timeVal \<Rightarrow> Inr (VTime timeVal))"
| "setFieldValue w (VStruct fs) value = Inr (VStruct fs)"
| "setFieldValue w (VNilable k isnil) value = Inl (Error (''unsupported field type: '' @ k))"
| "setFieldValue w (VOther k cmp z) value = Inl (Error (''unsupported field type: '' @ k))"
| "setSliceElems w t i [] = Inr []"
| "setSliceElems w t i (part # parts) =
     (case setFieldValue w (zero t) (TrimSpace part) of
        Inl err \<Rightarrow> Inl (Wrap (''invalid slice element at index '' @ itoa i @ '': '') err)
      | Inr v \<Rightarrow>
          (case setSliceElems w t (Suc i) parts of
             Inl err \<Rightarrow> Inl err
           | Inr vs \<Rightarrow> Inr (v # vs)))"
  by pat_completeness auto
termination
proof -
  have tz: "typeof (zero t) = t" "decl_of (zero_field d) = d" for t d
    by (induction t and d) (auto simp: map_idI)
  show ?thesis
    by (relation "inv_image (less_than <*lex*> less_than)
          (\<lambda>x. case x of
                 Inl (w, v, s) \<Rightarrow> (size (typeof v), 0)
               | Inr (w, t, i, ps) \<Rightarrow> (size t, Suc (length ps)))")
       (auto simp: tz)
qed


subsection \<open>The walk over the fields\<close>

text \<open>
  \<^verbatim>\<open>time.Time\<close> as \<^verbatim>\<open>reflect\<close> shows it: a struct of unexported fields, with
  \<^verbatim>\<open>*time.Location\<close> and \<^verbatim>\<open>time.zone\<close> and \<^verbatim>\<open>time.zoneTrans\<close> under it. The walk
  meets them when a field is a pointer to \<^verbatim>\<open>time.Time\<close>: only a field that is a
  \<^verbatim>\<open>time.Time\<close> itself is kept from the test for nested structs.
\<close>

definition zone_decls :: "fdecl list" where
  "zone_decls =
     [FDecl ''name'' False False TString, FDecl ''offset'' False False (TInt 64),
      FDecl ''isDST'' False False TBool]"

definition zoneTrans_decls :: "fdecl list" where
  "zoneTrans_decls =
     [FDecl ''when'' False False (TInt 64), FDecl ''index'' False False (TUint 8),
      FDecl ''isstd'' False False TBool, FDecl ''isutc'' False False TBool]"

definition Location_decls :: "fdecl list" where
  "Location_decls =
     [FDecl ''name'' False False TString,
      FDecl ''zone'' False False (TSlice (TStruct zone_decls)),
      FDecl ''tx'' False False (TSlice (TStruct zoneTrans_decls)),
      FDecl ''extend'' False False TString,
      FDecl ''cacheStart'' False False (TInt 64),
      FDecl ''cacheEnd'' False False (TInt 64),
      FDecl ''cacheZone'' False False (TPtr (TStruct zone_decls))]"

definition Time_decls :: "fdecl list" where
  "Time_decls =
     [FDecl ''wall'' False False (TUint 64), FDecl ''ext'' False False (TInt 64),
      FDecl ''loc'' False False (TPtr (TStruct Location_decls))]"

text \<open>
  The fields under a field of type \<open>t\<close> when the walk over types goes into it:
  \<^verbatim>\<open>Kind() == reflect.Struct\<close> and not \<^verbatim>\<open>time.Time\<close>, or
  \<^verbatim>\<open>Kind() == reflect.Ptr\<close> and \<^verbatim>\<open>Elem().Kind() == reflect.Struct\<close>.
\<close>

fun nested_decls :: "ty \<Rightarrow> fdecl list option" where
  "nested_decls (TStruct ds) = Some ds"
| "nested_decls (TPtr (TStruct ds)) = Some ds"
| "nested_decls (TPtr TTime) = Some Time_decls"
| "nested_decls t = None"

fun tsize :: "ty \<Rightarrow> nat" and dsize :: "fdecl \<Rightarrow> nat" where
  "tsize (TStruct ds) = Suc (sum_list (map dsize ds))"
| "tsize (TPtr t) = Suc (tsize t)"
| "tsize (TSlice t) = Suc (tsize t)"
| "tsize TTime = 28"
| "tsize TString = 0"
| "tsize TBool = 0"
| "tsize (TInt w) = 0"
| "tsize (TUint w) = 0"
| "tsize (TFloat w) = 0"
| "tsize TDuration = 0"
| "tsize (TNilable k) = 0"
| "tsize (TOther k cmp) = 0"
| "dsize (FDecl name exported required t) = Suc (tsize t)"

text \<open>
  The name of the variable of a leaf field: the derived name, or the entry of
  \<open>envMapping\<close> under the bare name of the field when there is one.
\<close>

definition leafEnvName :: "Config \<Rightarrow> string \<Rightarrow> string \<Rightarrow> string" where
  "leafEnvName c fieldName prefix =
     (let envName = getEnvName c fieldName prefix
      in case envMapping c fieldName of
           Some customName \<Rightarrow> customName
         | None \<Rightarrow> envName)"

function hasAnyEnvVar :: "Config \<Rightarrow> sys \<Rightarrow> fdecl list \<Rightarrow> string \<Rightarrow> bool" where
  "hasAnyEnvVar c w [] prefix = False"
| "hasAnyEnvVar c w (FDecl fieldName exported required t # rest) prefix =
     (case nested_decls t of
        Some ds \<Rightarrow>
          if hasAnyEnvVar c w ds (buildPrefix prefix fieldName) then True
          else hasAnyEnvVar c w rest prefix
      | None \<Rightarrow>
          if Getenv w (leafEnvName c fieldName prefix) \<noteq> [] then True
          else hasAnyEnvVar c w rest prefix)"
  by pat_completeness auto
termination
proof -
  have nd: "nested_decls t = Some ds \<Longrightarrow> sum_list (map dsize ds) < Suc (tsize t)" for t ds
    by (induction t arbitrary: ds rule: nested_decls.induct)
       (auto simp: Time_decls_def Location_decls_def zone_decls_def zoneTrans_decls_def)
  show ?thesis
    by (relation "measure (\<lambda>(c, w, ds, p). sum_list (map dsize ds))")
       (auto dest: nd)
qed

text \<open>\<open>setFieldFromEnv\<close>: an empty value is taken as no variable.\<close>

definition setFieldFromEnv :: "sys \<Rightarrow> val \<Rightarrow> string \<Rightarrow> error + val" where
  "setFieldFromEnv w field envName =
     (let envValue = Getenv w envName
      in if envValue = [] then Inr field else setFieldValue w field envValue)"

text \<open>
  The fields of a value of kind \<^verbatim>\<open>Struct\<close> that is not a \<^verbatim>\<open>time.Time\<close>, and what
  \<^verbatim>\<open>field.Elem()\<close> is once a nil pointer has been set to \<^verbatim>\<open>reflect.New\<close> of its
  element type.
\<close>

fun struct_fields :: "val \<Rightarrow> struct_field list option" where
  "struct_fields (VStruct fs) = Some fs"
| "struct_fields v = None"

fun pointee :: "val \<Rightarrow> val" where
  "pointee (VNilPtr t) = zero t"
| "pointee (VPtr p) = p"
| "pointee v = v"

text \<open>
  \<open>processField\<close> is the body of the loop of \<open>processStruct\<close> on one field and
  returns the field as the body leaves it. A field that is not exported cannot
  be set and is skipped. Under a pointer to \<^verbatim>\<open>time.Time\<close> the inner call of
  \<open>processStruct\<close> finds unexported fields only and changes nothing.
\<close>

function processStruct :: "Config \<Rightarrow> sys \<Rightarrow> struct_field list \<Rightarrow> string \<Rightarrow> error + struct_field list"
  and processField :: "Config \<Rightarrow> sys \<Rightarrow> struct_field \<Rightarrow> string \<Rightarrow> error + struct_field" where
  "processStruct c w [] prefix = Inr []"
| "processStruct c w (f # fs) prefix =
     (case processField c w f prefix of
        Inl err \<Rightarrow> Inl err
      | Inr f' \<Rightarrow>
          (case processStruct c w fs prefix of
             Inl err \<Rightarrow> Inl err
           | Inr fs' \<Rightarrow> Inr (f' # fs')))"
| "processField c w (StructField fieldName exported required v) prefix =
     (if \<not> exported then Inr (StructField fieldName exported required v)
      else case struct_fields v of
        Some fs \<Rightarrow>
          (case processStruct c w fs (buildPrefix prefix fieldName) of
             Inl err \<Rightarrow> Inl err
           | Inr fs' \<Rightarrow> Inr (StructField fieldName exported required (VStruct fs')))
      | None \<Rightarrow>
        (case nested_decls (typeof v) of
           Some ds \<Rightarrow>
             if hasAnyEnvVar c w ds (buildPrefix prefix fieldName) then
               (case struct_fields (pointee v) of
                  Some fs \<Rightarrow>
                    (case processStruct c w fs (buildPrefix prefix fieldName) of
                       Inl err \<Rightarrow> Inl err
                     | Inr fs' \<Rightarrow> Inr (StructField fieldName exported required (VPtr (VStruct fs'))))
                | None \<Rightarrow> Inr (StructField fieldName exported required (VPtr (pointee v))))
             else Inr (StructField fieldName exported required v)
         | None \<Rightarrow>
             (case setFieldFromEnv w v (leafEnvName c fieldName prefix) of
                Inl err \<Rightarrow> Inl (Wrap (''failed to set field '' @ fieldName @ '': '') err)
              | Inr v' \<Rightarrow> Inr (StructField fieldName exported required v'))))"
  by pat_completeness auto
termination
proof -
  have tz: "typeof (zero t) = t" "decl_of (zero_field d) = d" for t d
    by (induction t and d) (auto simp: map_idI)
  have sf: "struct_fields v = Some fs \<Longrightarrow> v = VStruct fs" for v fs
    by (cases v) simp_all
  have pt: "nested_decls (typeof v) = Some ds \<Longrightarrow> struct_fields v = None \<Longrightarrow>
      tsize (typeof (pointee v)) < tsize (typeof v)" for v ds
    by (cases v) (simp_all add: tz)
  have dp: "0 < dsize (decl_of f)" for f
    by (cases f) simp
  show ?thesis
    by (relation "measure (\<lambda>x. case x of
            Inl (c, w, fs, p) \<Rightarrow> Suc (sum_list (map dsize (map decl_of fs)))
          | Inr (c, w, f, p) \<Rightarrow> dsize (decl_of f))")
       (auto simp: comp_def dp dest!: sf dest: pt)
qed

definition loadFromEnv :: "Config \<Rightarrow> sys \<Rightarrow> val \<Rightarrow> error + val" where
  "loadFromEnv c w v =
     (case v of
        VStruct fs \<Rightarrow>
          (case processStruct c w fs [] of
             Inl err \<Rightarrow> Inl err
           | Inr fs' \<Rightarrow> Inr (VStruct fs'))
      | _ \<Rightarrow> Inr v)"

subsection \<open>Load\<close>

definition loadFromYAML :: "Config \<Rightarrow> sys \<Rightarrow> val \<Rightarrow> error + val" where
  "loadFromYAML c w cfg =
     (case ReadFile w (yamlFile c) of
        Inl err \<Rightarrow>
          (case err of
             ErrNotExist \<Rightarrow> Inr cfg
           | ErrOther m \<Rightarrow> Inl (Wrap ''failed to read YAML file: '' (Error m)))
      | Inr data \<Rightarrow>
          (case Unmarshal w data cfg of
             Inl err \<Rightarrow> Inl (Wrap ''failed to unmarshal YAML: '' err)
           | Inr cfg' \<Rightarrow> Inr cfg'))"

text \<open>
  \<open>Load c w cfg\<close>: \<open>cfg\<close> is the argument, \<open>None\<close> for \<^verbatim>\<open>nil\<close>; the result is
  the error, or the record behind the pointer as the call leaves it. What a
  call that fails has written to the record by then is not kept.
  \<open>struct_behind v\<close> is \<^verbatim>\<open>v.Elem()\<close> when \<^verbatim>\<open>v.Kind() == reflect.Ptr\<close> and
  \<^verbatim>\<open>v.Elem().Kind() == reflect.Struct\<close>, which holds of a struct and of a
  \<^verbatim>\<open>time.Time\<close>.
\<close>

fun struct_behind :: "val \<Rightarrow> val option" where
  "struct_behind (VPtr (VStruct fs)) = Some (VStruct fs)"
| "struct_behind (VPtr (VTime t)) = Some (VTime t)"
| "struct_behind v = None"

definition Load :: "Config \<Rightarrow> sys \<Rightarrow> val option \<Rightarrow> error + val" where
  "Load c w cfg =
     (case cfg of
        None \<Rightarrow> Inl (Error ''config cannot be nil'')
      | Some v \<Rightarrow>
          (case struct_behind v of
             None \<Rightarrow> Inl (Error ''config must be a pointer to struct'')
           | Some target \<Rightarrow>
               (case (if yamlFile c \<noteq> [] then loadFromYAML c w target else Inr target) of
                  Inl err \<Rightarrow> Inl (Wrap ''failed to load YAML: '' err)
                | Inr target' \<Rightarrow>
                    (case loadFromEnv c w target' of
                       Inl err \<Rightarrow> Inl (Wrap ''failed to load from env: '' err)
                     | Inr target'' \<Rightarrow> Inr target''))))"

text \<open>
  A call returns, or panics with a message. What becomes of the panic in the
  caller (\<^verbatim>\<open>recover\<close>) is outside the embedding.
\<close>

datatype 'a outcome = Returns 'a | Panics string

definition MustLoad :: "Config \<Rightarrow> sys \<Rightarrow> val option \<Rightarrow> val outcome" where
  "MustLoad c w cfg =
     (case Load c w cfg of
        Inl err \<Rightarrow> Panics (''failed to load configuration: '' @ Error_msg err)
      | Inr target \<Rightarrow> Returns target)"

subsection \<open>Validate\<close>

definition buildFieldPath :: "string \<Rightarrow> string \<Rightarrow> string" where
  "buildFieldPath prefix fieldName =
     (if prefix = [] then fieldName else prefix @ ''.'' @ fieldName)"

text \<open>Whether Go's \<^verbatim>\<open>==\<close> is defined on the values of a type.\<close>

fun comparable :: "ty \<Rightarrow> bool" and comparable_decl :: "fdecl \<Rightarrow> bool" where
  "comparable (TSlice t) = False"
| "comparable (TStruct ds) = list_all comparable_decl ds"
| "comparable (TNilable k) = (k = ''chan'' \<or> k = ''interface'')"
| "comparable (TOther k cmp) = cmp"
| "comparable (TPtr t) = True"
| "comparable TString = True"
| "comparable TBool = True"
| "comparable (TInt bits) = True"
| "comparable (TUint bits) = True"
| "comparable (TFloat bits) = True"
| "comparable TDuration = True"
| "comparable TTime = True"
| "comparable_decl (FDecl name exported required t) = comparable t"

text \<open>
  \<open>equals_zero v\<close>: the result of \<^verbatim>\<open>==\<close> between a value of a comparable type
  and the zero value of its type. Structs are compared field by field, a
  pointer equals the zero value when it is nil.
\<close>

fun equals_zero :: "val \<Rightarrow> bool" and field_equals_zero :: "struct_field \<Rightarrow> bool" where
  "equals_zero (VString s) = (s = [])"
| "equals_zero (VBool b) = (\<not> b)"
| "equals_zero (VInt bits i) = (i = 0)"
| "equals_zero (VUint bits i) = (i = 0)"
| "equals_zero (VFloat bits f) = (case f of Finite m e \<Rightarrow> m = 0 | _ \<Rightarrow> False)"
| "equals_zero (VDuration d) = (d = 0)"
| "equals_zero (VTime t) = (t = 0)"
| "equals_zero (VNilSlice t) = True"
| "equals_zero (VSlice t vs) = False"
| "equals_zero (VNilPtr t) = True"
| "equals_zero (VPtr p) = False"
| "equals_zero (VStruct fs) = list_all field_equals_zero fs"
| "equals_zero (VNilable k isnil) = isnil"
| "equals_zero (VOther k cmp z) = z"
| "field_equals_zero (StructField name exported required v) = equals_zero v"

text \<open>
  \<open>isZeroValue ro v\<close>; \<open>ro\<close> says that the value was reached through a field
  that is not exported, where \<^verbatim>\<open>v.Interface()\<close> panics. The comparison of two
  interface values of one type that is not comparable panics as well. The
  messages of the panics of the run time are shortened.
\<close>

definition isZeroValue :: "bool \<Rightarrow> val \<Rightarrow> bool outcome" where
  "isZeroValue ro v =
     (case v of
        VString s \<Rightarrow> Returns (s = [])
      | VBool b \<Rightarrow> Returns (\<not> b)
      | VInt bits i \<Rightarrow> Returns (i = 0)
      | VDuration d \<Rightarrow> Returns (d = 0)
      | VUint bits i \<Rightarrow> Returns (i = 0)
      | VFloat bits f \<Rightarrow> Returns (case f of Finite m e \<Rightarrow> m = 0 | _ \<Rightarrow> False)
      | VNilSlice t \<Rightarrow> Returns True
      | VSlice t vs \<Rightarrow> Returns False
      | VNilPtr t \<Rightarrow> Returns True
      | VPtr p \<Rightarrow> Returns False
      | VNilable k isnil \<Rightarrow> Returns isnil
      | VOther k cmp z \<Rightarrow> Returns False
      | _ \<Rightarrow>
          if ro then Panics ''reflect.Value.Interface: cannot return value obtained from unexported field or method''
          else if \<not> comparable (typeof v) then Panics ''runtime error: comparing uncomparable type''
          else Returns (equals_zero v))"

text \<open>
  \<open>validateField\<close> is the body of the loop of \<open>validateStruct\<close>. Under a pointer
  to \<^verbatim>\<open>time.Time\<close> the inner call finds no field with a tag and returns \<^verbatim>\<open>nil\<close>.
\<close>

fun validateStruct :: "Config \<Rightarrow> struct_field list \<Rightarrow> bool \<Rightarrow> string \<Rightarrow> error option outcome"
  and validateField :: "Config \<Rightarrow> struct_field \<Rightarrow> bool \<Rightarrow> string \<Rightarrow> error option outcome" where
  "validateStruct c [] ro prefix = Returns None"
| "validateStruct c (f # fs) ro prefix =
     (case validateField c f ro prefix of
        Returns None \<Rightarrow> validateStruct c fs ro prefix
      | Returns (Some err) \<Rightarrow> Returns (Some err)
      | Panics m \<Rightarrow> Panics m)"
| "validateField c (StructField name exported required v) ro prefix =
     (case (if required then isZeroValue (ro \<or> \<not> exported) v else Returns False) of
        Panics m \<Rightarrow> Panics m
      | Returns True \<Rightarrow>
          Returns (Some (Error (''required field is empty: '' @ buildFieldPath prefix name)))
      | Returns False \<Rightarrow>
          (case v of
             VStruct fs \<Rightarrow> validateStruct c fs (ro \<or> \<not> exported) (buildFieldPath prefix name)
           | VPtr (VStruct fs) \<Rightarrow>
               validateStruct c fs (ro \<or> \<not> exported) (buildFieldPath prefix name)
           | _ \<Rightarrow> Returns None))"

text \<open>
  \<open>Validate\<close>: \<^verbatim>\<open>v.Type()\<close> panics on the zero \<^verbatim>\<open>reflect.Value\<close> (a \<^verbatim>\<open>nil\<close>
  argument or a nil pointer), \<^verbatim>\<open>v.NumField()\<close> on a value that is not a struct.
\<close>

definition Validate :: "Config \<Rightarrow> val option \<Rightarrow> error option outcome" where
  "Validate c cfg =
     (case cfg of
        None \<Rightarrow> Panics ''reflect: call of reflect.Value.Type on zero Value''
      | Some v \<Rightarrow>
          (case (case v of VPtr p \<Rightarrow> Some p | VNilPtr t \<Rightarrow> None | _ \<Rightarrow> Some v) of
             None \<Rightarrow> Panics ''reflect: call of reflect.Value.Type on zero Value''
           | Some (VStruct fs) \<Rightarrow> validateStruct c fs False []
           | Some (VTime t) \<Rightarrow> Returns None
           | Some _ \<Rightarrow> Panics ''reflect: call of reflect.Value.NumField on non-struct Value''))"

subsection \<open>A process for the examples\<close>

text \<open>
  The environment holds the given variables, no file exists, and the library
  parsers for floats, durations and times accept nothing.
\<close>

definition example_sys :: "(string \<times> string) list \<Rightarrow> sys" where
  "example_sys vars =
     \<lparr>environ = map_of vars, ReadFile = (\<lambda>path. Inl ErrNotExist),
      Unmarshal = (\<lambda>data v. Inr v), ParseFloat = (\<lambda>s. None), float32 = (\<lambda>f. f),
      ParseDuration = (\<lambda>s. None), time_Parse = (\<lambda>layout s. None)\<rparr>"

subsection \<open>The record of the package's tests\<close>





definition FeatureFlags :: ty where
  "FeatureFlags =
     TStruct [FDecl ''EnableMetrics'' True False TBool, FDecl ''EnableTracing'' True False TBool,
              FDecl ''AllowedIPs'' True False (TSlice TString)]"



subsection \<open>Fields by their place in the record\<close>


fun deref :: "val \<Rightarrow> struct_field list option" where
  "deref (VStruct gs) = Some gs"
| "deref (VPtr (VStruct gs)) = Some gs"
| "deref v = None"





subsection \<open>Required fields that are empty\<close>

text \<open>
  \<open>required_empty fs prefix\<close> lists the dotted paths of the fields of a record
  that are tagged required and hold the zero value of their type, a field before
  the fields under it and the fields of a struct in the order of their
  declaration. \<open>scalar_required fs\<close> says that no field tagged required is a
  struct, a \<^verbatim>\<open>time.Time\<close>, or of an array, complex or pointer-sized kind.
\<close>

fun scalar_kind :: "val \<Rightarrow> bool" where
  "scalar_kind (VStruct fs) = False"
| "scalar_kind (VTime t) = False"
| "scalar_kind (VOther k cmp z) = False"
| "scalar_kind v = True"

function required_empty :: "struct_field list \<Rightarrow> string \<Rightarrow> string list" where
  "required_empty [] prefix = []"
| "required_empty (StructField name exported required v # fs) prefix =
     (if required \<and> equals_zero v then [buildFieldPath prefix name] else []) @
     (case deref v of
        Some gs \<Rightarrow> required_empty gs (buildFieldPath prefix name)
      | None \<Rightarrow> []) @
     required_empty fs prefix"
  by pat_completeness auto
termination
proof -
  have d: "deref v = Some gs \<Longrightarrow> size_list size gs < size v" for v gs
    by (cases v rule: deref.cases) simp_all
  show ?thesis
    by (relation "measure (\<lambda>(fs, p). size_list size fs)") (auto dest: d)
qed

function scalar_required :: "struct_field list \<Rightarrow> bool" where
  "scalar_required [] = True"
| "scalar_required (StructField name exported required v # fs) =
     ((\<not> required \<or> scalar_kind v) \<and>
      (case deref v of Some gs \<Rightarrow> scalar_required gs | None \<Rightarrow> True) \<and>
      scalar_required fs)"
  by pat_completeness auto
termination
proof -
  have d: "deref v = Some gs \<Longrightarrow> size_list size gs < size v" for v gs
    by (cases v rule: deref.cases) simp_all
  show ?thesis
    by (relation "measure (\<lambda>fs. size_list size fs)") (auto dest: d)
qed

section \<open>Properties\<close>

subsection \<open>The derived names\<close>

lemma getEnvName_bare: "getEnvName (c\<lparr>envPrefix := []\<rparr>) f [] = ToUpper (toSnakeCase f)"
  by (simp add: getEnvName_def)

lemma snake_listed:
  "ToUpper (toSnakeCase ''CamelCase'') = ''CAMEL_CASE''"
  "ToUpper (toSnakeCase ''XMLHttpRequest'') = ''XML_HTTP_REQUEST''"
  "ToUpper (toSnakeCase ''ID'') = ''ID''"
  "ToUpper (toSnakeCase ''UserID'') = ''USER_ID''"
  "ToUpper (toSnakeCase ''HTTPServer'') = ''HTTP_SERVER''"
  "ToUpper (toSnakeCase []) = []"
  "ToUpper (toSnakeCase ''TLS'') = ''TLS''"
  "ToUpper (toSnakeCase ''URL'') = ''URL''"
  "ToUpper (toSnakeCase ''AllowedIPs'') = ''ALLOWED_I_PS''"
  by code_simp+

text \<open>
  C2. The derivation of the name of the environment variable from the name of a
  field is a function, \<open>getEnvName\<close>. Without a prefix from the ancestors and
  with an empty \<open>envPrefix\<close> it gives \<^verbatim>\<open>CAMEL_CASE\<close> for \<^verbatim>\<open>CamelCase\<close>,
  \<^verbatim>\<open>XML_HTTP_REQUEST\<close> for \<^verbatim>\<open>XMLHttpRequest\<close>, \<^verbatim>\<open>ID\<close> for \<^verbatim>\<open>ID\<close>, \<^verbatim>\<open>USER_ID\<close> for
  \<^verbatim>\<open>UserID\<close>, \<^verbatim>\<open>HTTP_SERVER\<close> for \<^verbatim>\<open>HTTPServer\<close>, the empty string for the empty
  string, \<^verbatim>\<open>TLS\<close> for \<^verbatim>\<open>TLS\<close>, \<^verbatim>\<open>URL\<close> for \<^verbatim>\<open>URL\<close> and \<^verbatim>\<open>ALLOWED_I_PS\<close> for
  \<^verbatim>\<open>AllowedIPs\<close>, whatever the mapping of the binder.
\<close>

theorem getEnvName_listed:
  "getEnvName (c\<lparr>envPrefix := []\<rparr>) ''CamelCase'' [] = ''CAMEL_CASE'' \<and>
   getEnvName (c\<lparr>envPrefix := []\<rparr>) ''XMLHttpRequest'' [] = ''XML_HTTP_REQUEST'' \<and>
   getEnvName (c\<lparr>envPrefix := []\<rparr>) ''ID'' [] = ''ID'' \<and>
   getEnvName (c\<lparr>envPrefix := []\<rparr>) ''UserID'' [] = ''USER_ID'' \<and>
   getEnvName (c\<lparr>envPrefix := []\<rparr>) ''HTTPServer'' [] = ''HTTP_SERVER'' \<and>
   getEnvName (c\<lparr>envPrefix := []\<rparr>) [] [] = [] \<and>
   getEnvName (c\<lparr>envPrefix := []\<rparr>) ''TLS'' [] = ''TLS'' \<and>
   getEnvName (c\<lparr>envPrefix := []\<rparr>) ''URL'' [] = ''URL'' \<and>
   getEnvName (c\<lparr>envPrefix := []\<rparr>) ''AllowedIPs'' [] = ''ALLOWED_I_PS''"
  unfolding getEnvName_bare by (intro conjI snake_listed)

subsection \<open>Integers narrower than 64 bits\<close>

lemma SetInt_cong: "(SetInt bits x - x) mod 2 ^ bits = 0"
proof -
  have "(SetInt bits x - x) mod 2 ^ bits = ((x + 2 ^ (bits - 1)) mod 2 ^ bits - (x + 2 ^ (bits - 1))) mod 2 ^ bits"
    by (simp add: SetInt_def algebra_simps)
  also have "\<dots> = 0"
    by (metis cancel_comm_monoid_add_class.diff_cancel mod_0 mod_diff_left_eq)
  finally show ?thesis .
qed

lemma SetInt_range: "0 < bits \<Longrightarrow> - (2 ^ (bits - 1)) \<le> SetInt bits x \<and> SetInt bits x < 2 ^ (bits - 1)"
proof -
  assume b: "0 < bits"
  have p: "(2::int) ^ bits = 2 * 2 ^ (bits - 1)"
    using b by (cases bits) simp_all
  have "0 \<le> (x + 2 ^ (bits - 1)) mod 2 ^ bits" "(x + 2 ^ (bits - 1)) mod 2 ^ bits < 2 ^ bits"
    by simp_all
  then show ?thesis
    unfolding SetInt_def using p by linarith
qed

text \<open>
  C10. A value that \<^verbatim>\<open>strconv.ParseInt\<close> (or \<^verbatim>\<open>ParseUint\<close>) accepts at 64 bits is
  assigned to an integer field of any width \<open>bits\<close> without an error: the field
  holds the number reduced modulo \<open>2 ^ bits\<close>, in the range of the field. The
  string \<^verbatim>\<open>300\<close> gives 44 in a signed field of 8 bits.
\<close>

theorem setFieldValue_int_truncates:
  "(ParseInt s = Some x \<longrightarrow>
      setFieldValue w (VInt bits old) s = Inr (VInt bits (SetInt bits x)) \<and>
      (SetInt bits x - x) mod 2 ^ bits = 0 \<and>
      (0 < bits \<longrightarrow> - (2 ^ (bits - 1)) \<le> SetInt bits x \<and> SetInt bits x < 2 ^ (bits - 1))) \<and>
   (ParseUint s = Some x \<longrightarrow>
      setFieldValue w (VUint bits uold) s = Inr (VUint bits (x mod 2 ^ bits))) \<and>
   setFieldValue w (VInt 8 old) ''300'' = Inr (VInt 8 44)"
proof -
  have "setFieldValue w (VInt 8 old) ''300'' = Inr (VInt 8 44)"
    by (simp add: ParseInt_def is_digit_def SetInt_def)
  then show ?thesis
    using SetInt_cong SetInt_range by (simp add: SetUint_def)
qed

theorem setFieldValue_int_truncates_witness:
  "ParseInt ''300'' = Some 300 \<and>
   setFieldValue (example_sys []) (VInt 8 0) ''300'' = Inr (VInt 8 44) \<and>
   ParseUint ''300'' = Some 300 \<and>
   setFieldValue (example_sys []) (VUint 8 0) ''300'' = Inr (VUint 8 44)"
proof -
  have a: "ParseInt ''300'' = Some 300" by (simp add: ParseInt_def is_digit_def)
  have b: "ParseUint ''300'' = Some 300" by (simp add: ParseUint_def is_digit_def)
  show ?thesis
    using setFieldValue_int_truncates [of "''300''" 300 "example_sys []" 8 0 0] a b
    by (simp add: SetInt_def)
qed

subsection \<open>Slices\<close>







subsection \<open>The YAML step\<close>

text \<open>
  C6. With a path configured: when the file does not exist, Load goes on to the
  environment with the target as it was, and its result is the result of that
  step; when the file is read and \<^verbatim>\<open>yaml.Unmarshal\<close> fails with a cause, Load
  fails with an error that wraps the cause.
\<close>

theorem Load_yaml_step:
  "yamlFile c \<noteq> [] \<Longrightarrow>
   (ReadFile w (yamlFile c) = Inl ErrNotExist \<longrightarrow>
      Load c w (Some (VPtr (VStruct fs))) =
        (case loadFromEnv c w (VStruct fs) of
           Inl err \<Rightarrow> Inl (Wrap ''failed to load from env: '' err)
         | Inr target \<Rightarrow> Inr target)) \<and>
   (ReadFile w (yamlFile c) = Inr data \<and> Unmarshal w data (VStruct fs) = Inl cause \<longrightarrow>
      Load c w (Some (VPtr (VStruct fs))) =
        Inl (Wrap ''failed to load YAML: '' (Wrap ''failed to unmarshal YAML: '' cause)) \<and>
      wraps (Wrap ''failed to load YAML: '' (Wrap ''failed to unmarshal YAML: '' cause)) cause)"
proof -
  have w: "wraps cause cause" by (cases cause) simp_all
  assume "yamlFile c \<noteq> []"
  then show ?thesis
    by (auto simp: Load_def loadFromYAML_def w split: sum.splits)
qed

theorem Load_yaml_step_witness:
  "Load (New\<lparr>yamlFile := ''config.yaml''\<rparr>) (example_sys [(''HOST'', ''h'')])
     (Some (VPtr (VStruct [StructField ''Host'' True False (VString [])]))) =
     Inr (VStruct [StructField ''Host'' True False (VString ''h'')]) \<and>
   Load (New\<lparr>yamlFile := ''config.yaml''\<rparr>)
     ((example_sys [])\<lparr>ReadFile := (\<lambda>path. Inr ''host: [''),
                        Unmarshal := (\<lambda>data v. Inl (Error ''yaml: line 1: did not find expected node content''))\<rparr>)
     (Some (VPtr (VStruct [StructField ''Host'' True False (VString [])]))) =
     Inl (Wrap ''failed to load YAML: '' (Wrap ''failed to unmarshal YAML: ''
       (Error ''yaml: line 1: did not find expected node content'')))"
proof -
  let ?c = "New\<lparr>yamlFile := ''config.yaml''\<rparr>"
  let ?fs = "[StructField ''Host'' True False (VString [])]"
  let ?w2 = "(example_sys [])\<lparr>ReadFile := (\<lambda>path. Inr ''host: [''),
                        Unmarshal := (\<lambda>data v. Inl (Error ''yaml: line 1: did not find expected node content''))\<rparr>"
  have y: "yamlFile ?c \<noteq> []" by simp
  have m: "envMapping New = Map.empty" by (simp add: New_def)
  have "ToUpper (toSnakeCase ''Host'') = ''HOST''" by code_simp
  then have n: "getEnvName ?c ''Host'' [] = ''HOST''"
    by (simp add: getEnvName_def New_def)
  have e: "loadFromEnv ?c (example_sys [(''HOST'', ''h'')]) (VStruct ?fs) =
      Inr (VStruct [StructField ''Host'' True False (VString ''h'')])"
    by (simp add: loadFromEnv_def leafEnvName_def n setFieldFromEnv_def Getenv_def example_sys_def m)
  have r1: "ReadFile (example_sys [(''HOST'', ''h'')]) (yamlFile ?c) = Inl ErrNotExist"
    by (simp add: example_sys_def)
  have r2: "ReadFile ?w2 (yamlFile ?c) = Inr ''host: ['' \<and>
      Unmarshal ?w2 ''host: ['' (VStruct ?fs) =
        Inl (Error ''yaml: line 1: did not find expected node content'')"
    by simp
  from Load_yaml_step [OF y, of "example_sys [(''HOST'', ''h'')]" ?fs] r1 e
  have a: "Load ?c (example_sys [(''HOST'', ''h'')]) (Some (VPtr (VStruct ?fs))) =
      Inr (VStruct [StructField ''Host'' True False (VString ''h'')])"
    by simp
  from Load_yaml_step [OF y, of ?w2 ?fs "''host: [''"
      "Error ''yaml: line 1: did not find expected node content''"] r2
  have b: "Load ?c ?w2 (Some (VPtr (VStruct ?fs))) =
     Inl (Wrap ''failed to load YAML: '' (Wrap ''failed to unmarshal YAML: ''
       (Error ''yaml: line 1: did not find expected node content'')))"
    by blast
  show ?thesis using a b by blast
qed

subsection \<open>MustLoad\<close>

text \<open>
  C8. \<open>MustLoad\<close> calls \<open>Load\<close>. When \<open>Load\<close> succeeds it returns with the target
  as \<open>Load\<close> left it; when \<open>Load\<close> fails it panics with a message that ends
  with the message of the error; it returns only when \<open>Load\<close> succeeded.
\<close>

theorem MustLoad_escalates:
  "(Load c w cfg = Inr target \<longrightarrow> MustLoad c w cfg = Returns target) \<and>
   (Load c w cfg = Inl err \<longrightarrow>
      MustLoad c w cfg = Panics (''failed to load configuration: '' @ Error_msg err)) \<and>
   (MustLoad c w cfg = Returns target \<longrightarrow> Load c w cfg = Inr target)"
  by (simp add: MustLoad_def split: sum.splits)

theorem MustLoad_escalates_witness:
  "MustLoad New (example_sys []) (Some (VPtr (VString []))) =
     Panics ''failed to load configuration: config must be a pointer to struct'' \<and>
   MustLoad New (example_sys []) (Some (VPtr (VStruct []))) = Returns (VStruct [])"
proof -
  have a: "Load New (example_sys []) (Some (VPtr (VString []))) =
      Inl (Error ''config must be a pointer to struct'')"
    by (simp add: Load_def)
  have b: "Load New (example_sys []) (Some (VPtr (VStruct []))) = Inr (VStruct [])"
    by (simp add: Load_def New_def loadFromEnv_def)
  from MustLoad_escalates [of New "example_sys []" "Some (VPtr (VString []))" "VStruct []"
      "Error ''config must be a pointer to struct''"] a
  have "MustLoad New (example_sys []) (Some (VPtr (VString []))) =
     Panics (''failed to load configuration: '' @ Error_msg (Error ''config must be a pointer to struct''))"
    by blast
  moreover from MustLoad_escalates [of New "example_sys []" "Some (VPtr (VStruct []))" "VStruct []"
      "Error []"] b
  have "MustLoad New (example_sys []) (Some (VPtr (VStruct []))) = Returns (VStruct [])"
    by blast
  ultimately show ?thesis by simp
qed

subsection \<open>Variables set to the empty string\<close>

lemma parse_time_environ: "parse_time (w\<lparr>environ := e\<rparr>) ls s = parse_time w ls s"
  by (induction ls) (simp_all split: option.splits)

lemma setFieldValue_environ:
  "setFieldValue (w\<lparr>environ := e\<rparr>) v s = setFieldValue w v s"
  "setSliceElems (w\<lparr>environ := e\<rparr>) t i ps = setSliceElems w t i ps"
  by (induction w v s and w t i ps rule: setFieldValue_setSliceElems.induct)
     (simp_all add: parse_time_environ split: option.splits sum.splits)

lemma hasAnyEnvVar_Getenv:
  "Getenv (w\<lparr>environ := e\<rparr>) = Getenv w \<Longrightarrow>
   hasAnyEnvVar c (w\<lparr>environ := e\<rparr>) ds p = hasAnyEnvVar c w ds p"
  by (induction c w ds p rule: hasAnyEnvVar.induct) (simp_all split: option.splits)

lemma setFieldFromEnv_Getenv:
  "Getenv (w\<lparr>environ := e\<rparr>) = Getenv w \<Longrightarrow>
   setFieldFromEnv (w\<lparr>environ := e\<rparr>) v n = setFieldFromEnv w v n"
  by (simp add: setFieldFromEnv_def setFieldValue_environ Let_def)

lemma processStruct_Getenv:
  "Getenv (w\<lparr>environ := e\<rparr>) = Getenv w \<Longrightarrow>
   processStruct c (w\<lparr>environ := e\<rparr>) fs p = processStruct c w fs p"
  "Getenv (w\<lparr>environ := e\<rparr>) = Getenv w \<Longrightarrow>
   processField c (w\<lparr>environ := e\<rparr>) f p = processField c w f p"
proof (induction c w fs p and c w f p rule: processStruct_processField.induct)
  case (1 c w prefix)
  then show ?case by simp
next
  case (2 c w f fs prefix)
  then show ?case by (simp split: sum.splits)
next
  case (3 c w fieldName exported required v prefix)
  note g = hasAnyEnvVar_Getenv [OF "3.prems"] setFieldFromEnv_Getenv [OF "3.prems"]
  from 3 show ?case
    by (simp add: g split: option.splits)
qed

lemma Load_Getenv:
  assumes "Getenv (w\<lparr>environ := e\<rparr>) = Getenv w"
  shows "Load c (w\<lparr>environ := e\<rparr>) cfg = Load c w cfg"
proof -
  have "loadFromEnv c (w\<lparr>environ := e\<rparr>) v = loadFromEnv c w v" for v
    by (simp add: loadFromEnv_def processStruct_Getenv [OF assms] split: val.splits)
  moreover have "loadFromYAML c (w\<lparr>environ := e\<rparr>) v = loadFromYAML c w v" for v
    by (simp add: loadFromYAML_def split: sum.splits)
  ultimately show ?thesis by (simp add: Load_def split: option.splits sum.splits)
qed

text \<open>
  C9. A variable set to the empty string is to Load what a variable that is not
  set is: the two calls have the same result, whatever the target and the rest
  of the environment. The field of such a variable keeps its value and no error
  comes from it, and the variable does not count when a nil pointer to a nested
  record is looked at.
\<close>

theorem empty_variable_is_unset:
  "Load c (w\<lparr>environ := (environ w)(name \<mapsto> [])\<rparr>) cfg =
     Load c (w\<lparr>environ := (environ w)(name := None)\<rparr>) cfg \<and>
   MustLoad c (w\<lparr>environ := (environ w)(name \<mapsto> [])\<rparr>) cfg =
     MustLoad c (w\<lparr>environ := (environ w)(name := None)\<rparr>) cfg \<and>
   setFieldFromEnv (w\<lparr>environ := (environ w)(name \<mapsto> [])\<rparr>) v name = Inr v \<and>
   hasAnyEnvVar c (w\<lparr>environ := (environ w)(name \<mapsto> [])\<rparr>) ds p =
     hasAnyEnvVar c (w\<lparr>environ := (environ w)(name := None)\<rparr>) ds p"
proof -
  let ?u = "w\<lparr>environ := (environ w)(name := None)\<rparr>"
  have g: "Getenv (?u\<lparr>environ := (environ w)(name \<mapsto> [])\<rparr>) = Getenv ?u"
    by (rule ext) (simp add: Getenv_def)
  have u: "?u\<lparr>environ := (environ w)(name \<mapsto> [])\<rparr> = w\<lparr>environ := (environ w)(name \<mapsto> [])\<rparr>"
    by simp
  from Load_Getenv [OF g] hasAnyEnvVar_Getenv [OF g] show ?thesis
    unfolding u by (simp add: setFieldFromEnv_def Getenv_def MustLoad_def)
qed

theorem empty_variable_is_unset_witness:
  "Load New ((example_sys [])\<lparr>environ := (environ (example_sys []))(''HOST'' \<mapsto> [])\<rparr>)
     (Some (VPtr (VStruct [StructField ''Host'' True False (VString ''yaml-host'')]))) =
   Inr (VStruct [StructField ''Host'' True False (VString ''yaml-host'')])"
proof -
  let ?w = "example_sys []"
  let ?cfg = "Some (VPtr (VStruct [StructField ''Host'' True False (VString ''yaml-host'')]))"
  have m: "envMapping New = Map.empty" "yamlFile New = []" by (simp_all add: New_def)
  have "Load New (?w\<lparr>environ := (environ ?w)(''HOST'' := None)\<rparr>) ?cfg =
      Inr (VStruct [StructField ''Host'' True False (VString ''yaml-host'')])"
    by (simp add: Load_def loadFromEnv_def leafEnvName_def setFieldFromEnv_def Getenv_def
        example_sys_def m)
  with empty_variable_is_unset [of New ?w "''HOST''" ?cfg "VString []" "[]" "[]"]
  show ?thesis by simp
qed

subsection \<open>Explicit names for variables\<close>











subsection \<open>The walk, field by field\<close>









subsection \<open>Pointers to nested records\<close>





subsection \<open>The environment over YAML\<close>





subsection \<open>Required fields\<close>

lemma isZeroValue_scalar: "scalar_kind v \<Longrightarrow> isZeroValue ro v = Returns (equals_zero v)"
  by (cases v) (simp_all add: isZeroValue_def)

lemma validateStruct_scalar:
  "scalar_required fs \<Longrightarrow>
   validateStruct c fs ro p =
     Returns (case required_empty fs p of
                [] \<Rightarrow> None
              | path # paths \<Rightarrow> Some (Error (''required field is empty: '' @ path)))"
  "scalar_required [f] \<Longrightarrow>
   validateField c f ro p =
     Returns (case required_empty [f] p of
                [] \<Rightarrow> None
              | path # paths \<Rightarrow> Some (Error (''required field is empty: '' @ path)))"
proof (induction c fs ro p and c f ro p rule: validateStruct_validateField.induct)
  case (1 c ro prefix)
  then show ?case by simp
next
  case (2 c f fs ro prefix)
  obtain n x r v where f: "f = StructField n x r v" by (cases f)
  from "2.prems" f have s1: "scalar_required [f]" and s2: "scalar_required fs" by simp_all
  note a = "2.IH"(1) [OF s1]
  show ?case
  proof (cases "required_empty [f] prefix")
    case Nil
    with a have "validateField c f ro prefix = Returns None" by simp
    with "2.IH"(2) [OF _ _ s2] Nil f show ?thesis by (simp split: list.splits)
  next
    case (Cons path paths)
    with a f show ?thesis by (simp split: list.splits if_splits option.splits)
  qed
next
  case (3 c name exported required v ro prefix)
  let ?ro = "ro \<or> \<not> exported"
  let ?path = "buildFieldPath prefix name"
  from "3.prems" have sk: "\<not> required \<or> scalar_kind v" by simp
  then have z: "(if required then isZeroValue ?ro v else Returns False) =
      Returns (required \<and> equals_zero v)"
    by (auto simp: isZeroValue_scalar)
  show ?case
  proof (cases "required \<and> equals_zero v")
    case True
    with z show ?thesis by simp
  next
    case False
    with z have z': "(if required then isZeroValue ?ro v else Returns False) = Returns False"
      by simp
    have vf: "validateField c (StructField name exported required v) ro prefix =
        (case v of
           VStruct fs \<Rightarrow> validateStruct c fs ?ro ?path
         | VPtr (VStruct fs) \<Rightarrow> validateStruct c fs ?ro ?path
         | _ \<Rightarrow> Returns None)"
      by (simp only: validateField.simps z' outcome.simps bool.simps)
    show ?thesis
    proof (cases "deref v")
      case None
      then have "validateField c (StructField name exported required v) ro prefix = Returns None"
        unfolding vf by (cases v rule: deref.cases) simp_all
      with None False show ?thesis by simp
    next
      case (Some gs)
      with "3.prems" have sg: "scalar_required gs" by simp
      from Some consider "v = VStruct gs" | "v = VPtr (VStruct gs)"
        by (cases v rule: deref.cases) simp_all
      then show ?thesis
      proof cases
        case 1
        from "3.IH"(2) [OF z' refl 1 sg] 1 False show ?thesis unfolding vf by auto
      next
        case 2
        from "3.IH"(1) [OF z' refl 2 refl sg] 2 False show ?thesis unfolding vf by auto
      qed
    qed
  qed
qed

lemma Validate_scalar_required:
  "scalar_required fs \<Longrightarrow>
   Validate c (Some (VPtr (VStruct fs))) =
     Returns (case required_empty fs [] of
                [] \<Rightarrow> None
              | path # paths \<Rightarrow> Some (Error (''required field is empty: '' @ path)))"
  by (simp add: Validate_def validateStruct_scalar(1))


text \<open>
  C4. \<open>Validate\<close> is to fail with the path of the first required field that
  holds the zero value of its type. On a record whose required field is a struct
  with a slice in it, such as \<^verbatim>\<open>Features FeatureFlags `required:"true"`\<close> with
  nothing set, \<open>isZeroValue\<close> compares two interface values of a type that is
  not comparable, and the call panics: it neither fails with the path
  \<^verbatim>\<open>Features\<close> nor returns. (Where no required field is a struct,
  \<open>Validate_scalar_required\<close> above has the result the claim describes.)
\<close>

theorem Validate_required_struct_panics:
  "Validate New (Some (VPtr (VStruct [StructField ''Features'' True True (zero FeatureFlags)]))) =
     Panics ''runtime error: comparing uncomparable type''"
  by (simp add: Validate_def isZeroValue_def FeatureFlags_def)

end
